theory Spec2Isabelle
  imports Complex_Main
begin

section \<open>JavaScript values\<close>

text \<open>
  The values a request body, a provider response or a driver row can hold.  A number is
  an integer here (the columns and counters of this application are integers; fractions,
  NaN and the infinities are not values of this type), a string is a list of bytes, an
  object is the list of its own properties in order.  A NaN that a conversion produces is
  None of an option.
\<close>

datatype jv =
    JUndefined
  | JNull
  | JBool bool
  | JNum int
  | JStr string
  | JArr "jv list"
  | JObj "(string \<times> jv) list"

text \<open>ToBoolean, as \<open>if (v)\<close>, \<open>v || d\<close> and \<open>!v\<close> read a value.\<close>

fun truthy :: "jv \<Rightarrow> bool" where
  "truthy JUndefined = False"
| "truthy JNull = False"
| "truthy (JBool b) = b"
| "truthy (JNum n) = (n \<noteq> 0)"
| "truthy (JStr s) = (s \<noteq> [])"
| "truthy (JArr xs) = True"
| "truthy (JObj kvs) = True"

text \<open>Property access \<open>o.k\<close> on an object: undefined when the key is absent.\<close>

definition getProp :: "(string \<times> jv) list \<Rightarrow> string \<Rightarrow> jv" where
  "getProp kvs k = (case map_of kvs k of None \<Rightarrow> JUndefined | Some v \<Rightarrow> v)"

fun isArray :: "jv \<Rightarrow> bool" where
  "isArray (JArr xs) = True"
| "isArray v = False"

text \<open>
  Characters: the white space of \<open>\s\<close> and of trim (the ASCII part of it), decimal and
  hexadecimal digits, and the ASCII lower case of toLowerCase.
\<close>

definition is_space :: "char \<Rightarrow> bool" where
  "is_space c \<longleftrightarrow> c \<in> set [CHR '' '', CHR 0x09, CHR 0x0A, CHR 0x0B, CHR 0x0C, CHR 0x0D]"

definition digit_of :: "char \<Rightarrow> nat option" where
  "digit_of c =
     (let n = (of_char c :: nat) in if 48 \<le> n \<and> n \<le> 57 then Some (n - 48) else None)"

definition hex_of :: "char \<Rightarrow> nat option" where
  "hex_of c =
     (let n = (of_char c :: nat) in
      if 48 \<le> n \<and> n \<le> 57 then Some (n - 48)
      else if 65 \<le> n \<and> n \<le> 70 then Some (n - 55)
      else if 97 \<le> n \<and> n \<le> 102 then Some (n - 87)
      else None)"

definition lower_char :: "char \<Rightarrow> char" where
  "lower_char c =
     (let n = (of_char c :: nat) in if 65 \<le> n \<and> n \<le> 90 then char_of (n + 32) else c)"

definition toLowerCase :: "string \<Rightarrow> string" where
  "toLowerCase s = map lower_char s"

definition trim :: "string \<Rightarrow> string" where
  "trim s = rev (dropWhile is_space (rev (dropWhile is_space s)))"

text \<open>\<open>s.includes(w)\<close>: w occurs in s as a contiguous substring.\<close>

fun js_includes :: "string \<Rightarrow> string \<Rightarrow> bool" where
  "js_includes [] w = (w = [])"
| "js_includes (c # cs) w = (take (length w) (c # cs) = w \<or> js_includes cs w)"

text \<open>
  parseInt with no radix: the argument is converted to a string, leading white space is
  skipped, a sign is read, then the longest run of digits (hexadecimal ones after a 0x
  prefix).  With no digit the result is NaN (None).  A number converts to its decimal
  digits; an array converts to its elements joined by commas, so that only its first
  element is read; undefined, null, a boolean and an object convert to a word with no
  digit.
\<close>

definition digits_value :: "nat \<Rightarrow> nat list \<Rightarrow> int" where
  "digits_value base ds = int (foldl (\<lambda>acc d. acc * base + d) 0 ds)"

fun leading_digits :: "(char \<Rightarrow> nat option) \<Rightarrow> string \<Rightarrow> nat list" where
  "leading_digits f [] = []"
| "leading_digits f (c # cs) = (case f c of None \<Rightarrow> [] | Some d \<Rightarrow> d # leading_digits f cs)"

definition parseUnsigned :: "string \<Rightarrow> int option" where
  "parseUnsigned s =
     (if take 2 s = ''0x'' \<or> take 2 s = ''0X''
      then (case leading_digits hex_of (drop 2 s) of
              [] \<Rightarrow> None | ds \<Rightarrow> Some (digits_value 16 ds))
      else (case leading_digits digit_of s of
              [] \<Rightarrow> None | ds \<Rightarrow> Some (digits_value 10 ds)))"

definition parseIntStr :: "string \<Rightarrow> int option" where
  "parseIntStr s =
     (case dropWhile is_space s of
        [] \<Rightarrow> None
      | c # cs \<Rightarrow>
          if c = CHR ''-'' then map_option uminus (parseUnsigned cs)
          else if c = CHR ''+'' then parseUnsigned cs
          else parseUnsigned (c # cs))"

fun parseInt :: "jv \<Rightarrow> int option" where
  "parseInt (JNum n) = Some n"
| "parseInt (JStr s) = parseIntStr s"
| "parseInt (JArr (x # xs)) = parseInt x"
| "parseInt v = None"

text \<open>\<open>parseInt(v) || d\<close>: NaN and 0 are falsy.\<close>

definition parseIntOr :: "int \<Rightarrow> jv \<Rightarrow> int" where
  "parseIntOr d v = (case parseInt v of None \<Rightarrow> d | Some n \<Rightarrow> if n = 0 then d else n)"

text \<open>The exceptions of the runtime and the driver that the code can meet.\<close>

datatype js_error = SyntaxError | TypeError string | RangeError | DbError | Error string

text \<open>
  JSON.parse is a function of the runtime: it is a parameter \<open>jparse\<close> of every function
  that calls it, None when it throws a SyntaxError.
\<close>

type_synonym json_parse = "string \<Rightarrow> jv option"

section \<open>Dashboard statistics (dashboard.service, calculateStats)\<close>

text \<open>
  The entities follow the relational schema of the repository: a goal's priority is the
  ENUM('low','medium','high') of the goals table, a mood score is an integer column.
  A field that is absent (JavaScript undefined or null) is None.  The arguments of
  calculateStats may themselves be null or undefined (the source reads them through the
  optional chaining operator), which is None for the whole list.

  JavaScript numbers are modelled by exact rationals: the division and the multiplication
  of calculateStats are exact here, and Math.round is rounding half up.
\<close>

datatype priority = Low | Medium | High

record goal =
  g_title :: string
  g_completed :: bool
  g_priority :: "priority option"

record mood =
  m_score :: "int option"

record medRun =
  r_sessionTitle :: "string option"
  r_actualSeconds :: "int option"
  r_actual_seconds :: "int option"

record journalEntry =
  j_id :: string
  j_mood :: string
  j_text :: string
  j_tags :: jv
  j_summary :: "string option"
  j_sentiment :: "string option"
  j_createdAt :: "string option"
  j_updatedAt :: "string option"

record bucket =
  b_open :: nat
  b_completed :: nat

record goalsByPriority =
  p_low :: bucket
  p_medium :: bucket
  p_high :: bucket

record stats =
  totalGoals :: nat
  completedGoals :: nat
  openGoals :: int
  avgMood :: "rat option"
  totalMedMinutes :: int
  totalMedSessions :: nat
  journalCount :: nat
  journalWithSummary :: nat
  moodCounts :: "nat list"
  byPriority :: goalsByPriority
  completionRate :: int

text \<open>Math.round: the nearest integer, a tie going up.\<close>

definition js_round :: "rat \<Rightarrow> int" where
  "js_round q = \<lfloor>q + 1 / 2\<rfloor>"

text \<open>\<open>xs?.length || 0\<close>\<close>

definition len_or0 :: "'a list option \<Rightarrow> nat" where
  "len_or0 xs = (case xs of None \<Rightarrow> 0 | Some l \<Rightarrow> length l)"

text \<open>\<open>xs?.filter(p).length || 0\<close>\<close>

definition count_or0 :: "('a \<Rightarrow> bool) \<Rightarrow> 'a list option \<Rightarrow> nat" where
  "count_or0 p xs = (case xs of None \<Rightarrow> 0 | Some l \<Rightarrow> length (filter p l))"

text \<open>
  \<open>v || d\<close> for a number that may be missing (0 is falsy), and the truthiness of a
  string that may be missing.
\<close>

definition intOr :: "int option \<Rightarrow> int \<Rightarrow> int" where
  "intOr v d = (case v of None \<Rightarrow> d | Some n \<Rightarrow> if n = 0 then d else n)"

definition truthy_str :: "string option \<Rightarrow> bool" where
  "truthy_str v = (case v of None \<Rightarrow> False | Some s \<Rightarrow> s \<noteq> [])"

text \<open>
  \<open>moods.reduce((sum, m) => sum + m.score, 0) / moods.length\<close> when the list is not empty,
  0 otherwise.  A missing score makes the sum NaN, which is None.
\<close>

fun sumScores :: "mood list \<Rightarrow> int option" where
  "sumScores [] = Some 0"
| "sumScores (m # ms) =
     (case m_score m of None \<Rightarrow> None
      | Some s \<Rightarrow> (case sumScores ms of None \<Rightarrow> None | Some t \<Rightarrow> Some (s + t)))"

definition rawAvgMood :: "mood list option \<Rightarrow> rat option" where
  "rawAvgMood moods =
     (case moods of None \<Rightarrow> Some 0
      | Some ms \<Rightarrow>
          if length ms > 0
          then (case sumScores ms of None \<Rightarrow> None
                | Some t \<Rightarrow> Some (of_int t / of_nat (length ms)))
          else Some 0)"

text \<open>\<open>r.actualSeconds || r.actual_seconds || 0\<close>\<close>

definition runSeconds :: "medRun \<Rightarrow> int" where
  "runSeconds r = intOr (r_actualSeconds r) (intOr (r_actual_seconds r) 0)"

definition medMinutes :: "medRun list option \<Rightarrow> int" where
  "medMinutes runs =
     (case runs of None \<Rightarrow> 0
      | Some rs \<Rightarrow> foldl (\<lambda>sum r. sum + js_round (of_int (runSeconds r) / 60)) 0 rs)"

text \<open>\<open>Math.max(0, Math.min(4, (m.score || 1) - 1))\<close>\<close>

definition moodIdx :: "mood \<Rightarrow> nat" where
  "moodIdx m = nat (max 0 (min 4 (intOr (m_score m) 1 - 1)))"

text \<open>The forEach over the moods, which increments one cell of the array.\<close>

definition moodHistogram :: "mood list option \<Rightarrow> nat list" where
  "moodHistogram moods =
     (case moods of None \<Rightarrow> [0, 0, 0, 0, 0]
      | Some ms \<Rightarrow>
          foldl (\<lambda>counts m. counts[moodIdx m := counts ! moodIdx m + 1]) [0, 0, 0, 0, 0] ms)"

text \<open>The forEach over the goals: \<open>g.priority || 'medium'\<close> selects the bucket.\<close>

definition bump :: "bool \<Rightarrow> bucket \<Rightarrow> bucket" where
  "bump done b =
     (if done then b\<lparr>b_completed := b_completed b + 1\<rparr> else b\<lparr>b_open := b_open b + 1\<rparr>)"

definition countGoal :: "goalsByPriority \<Rightarrow> goal \<Rightarrow> goalsByPriority" where
  "countGoal acc g =
     (case (case g_priority g of None \<Rightarrow> Medium | Some p \<Rightarrow> p) of
        Low \<Rightarrow> acc\<lparr>p_low := bump (g_completed g) (p_low acc)\<rparr>
      | Medium \<Rightarrow> acc\<lparr>p_medium := bump (g_completed g) (p_medium acc)\<rparr>
      | High \<Rightarrow> acc\<lparr>p_high := bump (g_completed g) (p_high acc)\<rparr>)"

definition emptyBucket :: bucket where
  "emptyBucket = \<lparr>b_open = 0, b_completed = 0\<rparr>"

definition priorityBreakdown :: "goal list option \<Rightarrow> goalsByPriority" where
  "priorityBreakdown goals =
     (case goals of
        None \<Rightarrow> \<lparr>p_low = emptyBucket, p_medium = emptyBucket, p_high = emptyBucket\<rparr>
      | Some gs \<Rightarrow>
          foldl countGoal \<lparr>p_low = emptyBucket, p_medium = emptyBucket, p_high = emptyBucket\<rparr> gs)"

definition calculateStats ::
  "goal list option \<Rightarrow> mood list option \<Rightarrow> medRun list option \<Rightarrow> journalEntry list option \<Rightarrow> stats"
where
  "calculateStats goals moods medRuns journalEntries =
     (let total = len_or0 goals;
          completed = count_or0 g_completed goals
      in \<lparr>totalGoals = total,
          completedGoals = completed,
          openGoals = int total - int completed,
          avgMood = map_option (\<lambda>a. of_int (js_round (a * 10)) / 10) (rawAvgMood moods),
          totalMedMinutes = medMinutes medRuns,
          totalMedSessions = len_or0 medRuns,
          journalCount = len_or0 journalEntries,
          journalWithSummary = count_or0 (\<lambda>j. truthy_str (j_summary j)) journalEntries,
          moodCounts = moodHistogram moods,
          byPriority = priorityBreakdown goals,
          completionRate =
            (if total > 0 then js_round ((of_nat completed / of_nat total) * 100) else 0)\<rparr>)"

definition sampleGoals :: "goal list" where
  "sampleGoals =
     [\<lparr>g_title = ''Build morning routine'', g_completed = False, g_priority = Some High\<rparr>,
      \<lparr>g_title = ''Finish project X'', g_completed = True, g_priority = Some Medium\<rparr>,
      \<lparr>g_title = ''Read'', g_completed = False, g_priority = None\<rparr>]"

definition sampleMoods :: "mood list" where
  "sampleMoods = [\<lparr>m_score = Some 4\<rparr>, \<lparr>m_score = None\<rparr>, \<lparr>m_score = Some 0\<rparr>,
                  \<lparr>m_score = Some 9\<rparr>, \<lparr>m_score = Some 3\<rparr>, \<lparr>m_score = Some (-2)\<rparr>]"

section \<open>Goals (goals.service, goals.controller)\<close>

text \<open>
  A row of the goals table, as its schema declares it: the id is the AUTO_INCREMENT
  primary key, completed is the TINYINT(1) flag, completed_at a nullable DATETIME.  The
  tags column holds a JSON array or NULL.  The table is the list of its rows.
\<close>

record goal_row =
  gr_id :: nat
  gr_user_id :: nat
  gr_title :: string
  gr_note :: "string option"
  gr_created_at :: string
  gr_due_at :: "string option"
  gr_completed :: bool
  gr_completed_at :: "string option"
  gr_priority :: priority
  gr_tags :: "string list option"

text \<open>
  The fields of the body of a PUT request that updateGoal destructures.  None is a field
  that is undefined (absent from the request); a field that may be sent as null has an
  option of its own.  The completed field is kept by its truthiness, which is all that
  \<open>completed ? 1 : 0\<close> reads.  The tags have passed parseTagsValue in the controller
  and are an array or null.
\<close>

record goal_changes =
  ch_title :: "string option"
  ch_note :: "string option option"
  ch_due_at :: "string option option"
  ch_completed :: "bool option"
  ch_completed_at :: "string option option"
  ch_priority :: "priority option"
  ch_tags :: "string list option option"

text \<open>\<open>SELECT * FROM goals WHERE id = ? AND user_id = ? LIMIT 1\<close>, then \<open>rows[0] || null\<close>\<close>

definition getGoalById :: "goal_row list \<Rightarrow> nat \<Rightarrow> nat \<Rightarrow> goal_row option" where
  "getGoalById db i userId = find (\<lambda>r. gr_id r = i \<and> gr_user_id r = userId) db"

text \<open>\<open>SELECT * FROM goals WHERE user_id = ?\<close>\<close>

definition getGoalsByUser :: "goal_row list \<Rightarrow> nat \<Rightarrow> goal_row list" where
  "getGoalsByUser db userId = filter (\<lambda>r. gr_user_id r = userId) db"

text \<open>
  The SET clause that updateGoal builds: one assignment for each field that is not
  undefined, in the order of the source (the title first, the tags last).
\<close>

definition noFields :: "goal_changes \<Rightarrow> bool" where
  "noFields ch \<longleftrightarrow>
     ch_title ch = None \<and> ch_note ch = None \<and> ch_due_at ch = None \<and> ch_completed ch = None \<and>
     ch_completed_at ch = None \<and> ch_priority ch = None \<and> ch_tags ch = None"

definition patch :: "'v option \<Rightarrow> ('v \<Rightarrow> 'r \<Rightarrow> 'r) \<Rightarrow> 'r \<Rightarrow> 'r" where
  "patch field assign r = (case field of None \<Rightarrow> r | Some v \<Rightarrow> assign v r)"

definition setFields :: "goal_changes \<Rightarrow> goal_row \<Rightarrow> goal_row" where
  "setFields ch r =
     patch (ch_tags ch) (\<lambda>v x. x\<lparr>gr_tags := v\<rparr>)
       (patch (ch_priority ch) (\<lambda>v x. x\<lparr>gr_priority := v\<rparr>)
         (patch (ch_completed_at ch) (\<lambda>v x. x\<lparr>gr_completed_at := v\<rparr>)
           (patch (ch_completed ch) (\<lambda>v x. x\<lparr>gr_completed := v\<rparr>)
             (patch (ch_due_at ch) (\<lambda>v x. x\<lparr>gr_due_at := v\<rparr>)
               (patch (ch_note ch) (\<lambda>v x. x\<lparr>gr_note := v\<rparr>)
                 (patch (ch_title ch) (\<lambda>v x. x\<lparr>gr_title := v\<rparr>) r))))))"

text \<open>
  updateGoal returns the table after the statement and the row read back.  With no field
  to set it only reads; otherwise \<open>UPDATE goals SET ... WHERE id = ? AND user_id = ?\<close>
  rewrites the rows of that id and owner.
\<close>

definition updateGoal ::
  "goal_row list \<Rightarrow> nat \<Rightarrow> nat \<Rightarrow> goal_changes \<Rightarrow> goal_row list \<times> goal_row option"
where
  "updateGoal db i userId ch =
     (if noFields ch then (db, getGoalById db i userId)
      else
        let db' = map (\<lambda>r. if gr_id r = i \<and> gr_user_id r = userId then setFields ch r else r) db
        in (db', getGoalById db' i userId))"

text \<open>\<open>DELETE FROM goals WHERE id = ? AND user_id = ?\<close>, then \<open>affectedRows > 0\<close>\<close>

definition deleteGoal :: "goal_row list \<Rightarrow> nat \<Rightarrow> nat \<Rightarrow> goal_row list \<times> bool" where
  "deleteGoal db i userId =
     (let db' = filter (\<lambda>r. \<not> (gr_id r = i \<and> gr_user_id r = userId)) db
      in (db', length db - length db' > 0))"

text \<open>
  The controller: an HTTP status and a JSON body.  The user id is the one of the
  authenticated request.
\<close>

datatype goal_body = Message string | GoalObj goal_row | Deleted

record goal_response =
  rs_status :: nat
  rs_body :: goal_body

definition getOne :: "goal_row list \<Rightarrow> nat \<Rightarrow> nat \<Rightarrow> goal_response" where
  "getOne db userId i =
     (case getGoalById db i userId of
        None \<Rightarrow> \<lparr>rs_status = 404, rs_body = Message ''Not found''\<rparr>
      | Some g \<Rightarrow> \<lparr>rs_status = 200, rs_body = GoalObj g\<rparr>)"

definition update :: "goal_row list \<Rightarrow> nat \<Rightarrow> nat \<Rightarrow> goal_changes \<Rightarrow> goal_row list \<times> goal_response" where
  "update db userId i payload =
     (case updateGoal db i userId payload of
        (db', None) \<Rightarrow> (db', \<lparr>rs_status = 404, rs_body = Message ''Not found or not allowed''\<rparr>)
      | (db', Some updated) \<Rightarrow> (db', \<lparr>rs_status = 200, rs_body = GoalObj updated\<rparr>))"

definition remove :: "goal_row list \<Rightarrow> nat \<Rightarrow> nat \<Rightarrow> goal_row list \<times> goal_response" where
  "remove db userId i =
     (case deleteGoal db i userId of
        (db', False) \<Rightarrow> (db', \<lparr>rs_status = 404, rs_body = Message ''Not found''\<rparr>)
      | (db', True) \<Rightarrow> (db', \<lparr>rs_status = 200, rs_body = Deleted\<rparr>))"

text \<open>A table with a goal of user 7 and a goal of user 8, and two request bodies.\<close>

definition goalOf7 :: goal_row where
  "goalOf7 = \<lparr>gr_id = 1, gr_user_id = 7, gr_title = ''Run 5k'', gr_note = None,
     gr_created_at = ''2025-10-27 16:38:42'', gr_due_at = None, gr_completed = False,
     gr_completed_at = None, gr_priority = High, gr_tags = None\<rparr>"

definition goalOf8 :: goal_row where
  "goalOf8 = \<lparr>gr_id = 2, gr_user_id = 8, gr_title = ''Sleep early'', gr_note = None,
     gr_created_at = ''2025-10-28 09:00:00'', gr_due_at = None, gr_completed = False,
     gr_completed_at = None, gr_priority = Medium, gr_tags = Some [''health'']\<rparr>"

definition noChanges :: goal_changes where
  "noChanges = \<lparr>ch_title = None, ch_note = None, ch_due_at = None, ch_completed = None,
     ch_completed_at = None, ch_priority = None, ch_tags = None\<rparr>"

definition onlyCompleted :: goal_changes where
  "onlyCompleted = noChanges\<lparr>ch_completed := Some True\<rparr>"

definition toggleOn :: goal_changes where
  "toggleOn = noChanges\<lparr>ch_completed := Some True, ch_completed_at := Some (Some ''2025-10-29'')\<rparr>"

section \<open>Mood entries (mood.service, mood.controller)\<close>

text \<open>
  A row of mood_entries as the driver returns it.  A numeric column that is NULL, or that
  an older row does not have, is None.  The tags column is returned as the driver gives
  it: null, a string, or the parsed JSON value.  Timestamps are kept as the strings they
  are; their change of format between ISO and MySQL notation is not modelled.
\<close>

record mood_row =
  mr_id :: string
  mr_user_id :: nat
  mr_score :: "int option"
  mr_energy :: "int option"
  mr_intensity :: "int option"
  mr_emoji :: "string option"
  mr_note :: "string option"
  mr_date :: "string option"
  mr_tags :: jv

text \<open>The entry as the service returns it to the controller.\<close>

record mood_entry =
  e_id :: string
  e_score :: int
  e_energy :: int
  e_intensity :: int
  e_emoji :: "string option"
  e_note :: "string option"
  e_date :: "string option"
  e_tags :: "jv list"

text \<open>The body of a POST: the numeric fields and the tags are any JSON value.\<close>

record mood_payload =
  mp_id :: "string option"
  mp_score :: jv
  mp_energy :: jv
  mp_intensity :: jv
  mp_emoji :: "string option"
  mp_note :: "string option"
  mp_date :: "string option"
  mp_tags :: jv

text \<open>
  The tags of a row, as both sanitizeEntry functions read them: a falsy column gives the
  empty list; a string is parsed, and a parse error is caught and gives the empty list;
  a value that is not an array gives the empty list.
\<close>

definition rowTags :: "json_parse \<Rightarrow> jv \<Rightarrow> jv list" where
  "rowTags jparse t =
     (let tags =
        (if truthy t
         then (case t of
                 JStr s \<Rightarrow> (case jparse s of None \<Rightarrow> JArr [] | Some v \<Rightarrow> v)
               | v \<Rightarrow> v)
         else JArr [])
      in (case tags of JArr xs \<Rightarrow> xs | v \<Rightarrow> []))"

definition numOf :: "int option \<Rightarrow> jv" where
  "numOf c = (case c of None \<Rightarrow> JNull | Some n \<Rightarrow> JNum n)"

definition mood_sanitizeRow :: "json_parse \<Rightarrow> mood_row \<Rightarrow> mood_entry" where
  "mood_sanitizeRow jparse r =
     \<lparr>e_id = mr_id r,
      e_score = parseIntOr 1 (numOf (mr_score r)),
      e_energy = parseIntOr 3 (numOf (mr_energy r)),
      e_intensity = parseIntOr 3 (numOf (mr_intensity r)),
      e_emoji = mr_emoji r,
      e_note = mr_note r,
      e_date = mr_date r,
      e_tags = rowTags jparse (mr_tags r)\<rparr>"

text \<open>sanitizeEntry: null for no row (\<open>if (!entry) return null\<close>).\<close>

definition mood_sanitizeEntry :: "json_parse \<Rightarrow> mood_row option \<Rightarrow> mood_entry option" where
  "mood_sanitizeEntry jparse entry = map_option (mood_sanitizeRow jparse) entry"

definition mood_getEntry :: "json_parse \<Rightarrow> mood_row list \<Rightarrow> string \<Rightarrow> nat \<Rightarrow> mood_entry option" where
  "mood_getEntry jparse db i userId =
     mood_sanitizeEntry jparse (find (\<lambda>r. mr_id r = i \<and> mr_user_id r = userId) db)"

definition mood_listEntries :: "json_parse \<Rightarrow> mood_row list \<Rightarrow> nat \<Rightarrow> mood_entry list" where
  "mood_listEntries jparse db userId =
     map (mood_sanitizeRow jparse) (filter (\<lambda>r. mr_user_id r = userId) db)"

text \<open>The default emoji of createEntry, U+1F610 in UTF-8.\<close>

definition neutralFace :: string where
  "neutralFace = [CHR 0xF0, CHR 0x9F, CHR 0x98, CHR 0x90]"

text \<open>\<open>v || d\<close> for a string that may be missing: the empty string is falsy.\<close>

definition orElse :: "string option \<Rightarrow> string option \<Rightarrow> string option" where
  "orElse v d = (case v of None \<Rightarrow> d | Some s \<Rightarrow> if s = [] then d else Some s)"

definition strOr :: "string option \<Rightarrow> string \<Rightarrow> string" where
  "strOr v d = (case v of None \<Rightarrow> d | Some s \<Rightarrow> if s = [] then d else s)"

text \<open>
  createEntry: the id is the one of the payload or a generated one (\<open>fresh\<close>); the INSERT
  fails on an id that the table already holds (the id is the primary key), and the error
  is thrown on.  The tags are stored as the array that was sent (the JSON column gives
  back the value whose text was written).  The created row is read back through getEntry.
\<close>

definition mood_createEntry ::
  "json_parse \<Rightarrow> string \<Rightarrow> mood_row list \<Rightarrow> nat \<Rightarrow> mood_payload
     \<Rightarrow> js_error + (mood_row list \<times> mood_entry option)"
where
  "mood_createEntry jparse fresh db userId payload =
     (let entryId = strOr (mp_id payload) fresh;
          tags = (if isArray (mp_tags payload) then mp_tags payload else JNull);
          row = \<lparr>mr_id = entryId,
                 mr_user_id = userId,
                 mr_score = Some (parseIntOr 1 (mp_score payload)),
                 mr_energy = Some (parseIntOr 3 (mp_energy payload)),
                 mr_intensity = Some (parseIntOr 3 (mp_intensity payload)),
                 mr_emoji = orElse (mp_emoji payload) (Some neutralFace),
                 mr_note = orElse (mp_note payload) None,
                 mr_date = orElse (mp_date payload) None,
                 mr_tags = tags\<rparr>
      in if entryId \<in> set (map mr_id db) then Inl DbError
         else Inr (db @ [row], mood_getEntry jparse (db @ [row]) entryId userId))"

text \<open>The controller of POST /api/mood/entries.\<close>

datatype mood_body = MoodMessage string | MoodEntry "mood_entry option"

definition mood_create_handler ::
  "json_parse \<Rightarrow> string \<Rightarrow> mood_row list \<Rightarrow> nat \<Rightarrow> mood_payload
     \<Rightarrow> mood_row list \<times> nat \<times> mood_body"
where
  "mood_create_handler jparse fresh db userId body =
     (if \<not> truthy (mp_score body) \<or> \<not> truthy (case mp_date body of None \<Rightarrow> JUndefined | Some d \<Rightarrow> JStr d)
      then (db, 400, MoodMessage ''Score and date are required'')
      else (case mood_createEntry jparse fresh db userId body of
              Inl err \<Rightarrow> (db, 500, MoodMessage ''Server error'')
            | Inr (db', created) \<Rightarrow> (db', 201, MoodEntry created)))"

text \<open>A stand-in for JSON.parse that knows a few texts and rejects every other one.\<close>

definition sampleParse :: json_parse where
  "sampleParse s =
     (if s = ''[\"calm\",\"work\"]'' then Some (JArr [JStr ''calm'', JStr ''work''])
      else if s = ''{}'' then Some (JObj [])
      else if s = ''{\"summary\":\"A good day\"}''
        then Some (JObj [(''summary'', JStr ''A good day'')])
      else if s = ''{\"summary\":\"A good day\",\"sentiment\":\"Mixed\"}''
        then Some (JObj [(''summary'', JStr ''A good day''), (''sentiment'', JStr ''Mixed'')])
      else if s = ''{\"summary\":\"Mock summary: consistent progress and steady mood.\",\"sentiment\":\"neutral\"}''
        then Some (JObj [(''summary'', JStr ''Mock summary: consistent progress and steady mood.''),
                         (''sentiment'', JStr ''neutral'')])
      else None)"

definition samplePayload :: mood_payload where
  "samplePayload = \<lparr>mp_id = Some ''mood1'', mp_score = JNum 4, mp_energy = JUndefined,
     mp_intensity = JStr ''abc'', mp_emoji = None, mp_note = None,
     mp_date = Some ''2025-10-27T16:38:42.277Z'', mp_tags = JArr [JStr ''calm'']\<rparr>"

definition outOfRangePayload :: mood_payload where
  "outOfRangePayload = samplePayload\<lparr>mp_score := JNum 99, mp_energy := JNum (-3), mp_intensity := JStr ''12''\<rparr>"

section \<open>Journal entries (journal.service) and the dashboard's fetch of them\<close>

text \<open>
  A row of journal_entries as the driver returns it; the mood column holds the words of
  MOOD_MAP.  The entry of the journal service carries the mood as an emoji (its UTF-8
  bytes here).
\<close>

record journal_row =
  jr_id :: string
  jr_user_id :: nat
  jr_mood :: string
  jr_text :: string
  jr_tags :: jv
  jr_summary :: "string option"
  jr_sentiment :: "string option"
  jr_created_at :: "string option"
  jr_updated_at :: "string option"

record journal_entry =
  je_id :: string
  je_mood :: string
  je_text :: string
  je_tags :: "jv list"
  je_summary :: "string option"
  je_sentiment :: "string option"
  je_createdAt :: "string option"
  je_updatedAt :: "string option"

definition MOOD_REVERSE_MAP :: "(string \<times> string) list" where
  "MOOD_REVERSE_MAP =
     [(''happy'', [CHR 0xF0, CHR 0x9F, CHR 0x98, CHR 0x8A]),
      (''neutral'', [CHR 0xF0, CHR 0x9F, CHR 0x98, CHR 0x90]),
      (''sad'', [CHR 0xF0, CHR 0x9F, CHR 0x98, CHR 0x94])]"

definition journal_sanitizeEntry :: "json_parse \<Rightarrow> journal_row option \<Rightarrow> journal_entry option" where
  "journal_sanitizeEntry jparse entry =
     (case entry of
        None \<Rightarrow> None
      | Some r \<Rightarrow>
          Some \<lparr>je_id = jr_id r,
                je_mood = (case map_of MOOD_REVERSE_MAP (jr_mood r) of
                             None \<Rightarrow> [CHR 0xF0, CHR 0x9F, CHR 0x98, CHR 0x8A]
                           | Some emoji \<Rightarrow> emoji),
                je_text = jr_text r,
                je_tags = rowTags jparse (jr_tags r),
                je_summary = jr_summary r,
                je_sentiment = jr_sentiment r,
                je_createdAt = jr_created_at r,
                je_updatedAt = jr_updated_at r\<rparr>)"

definition journal_getEntry ::
  "json_parse \<Rightarrow> journal_row list \<Rightarrow> string \<Rightarrow> nat \<Rightarrow> journal_entry option" where
  "journal_getEntry jparse db i userId =
     journal_sanitizeEntry jparse (find (\<lambda>r. jr_id r = i \<and> jr_user_id r = userId) db)"








section \<open>Authentication (auth.service, auth.controller)\<close>

text \<open>
  A row of the users table is the object the driver returns: the list of its columns with
  their values.  The functions of bcrypt and jsonwebtoken are parameters: \<open>hash\<close> is
  bcrypt.hash with its cost, \<open>compare\<close> is bcrypt.compare (None when it throws), and
  \<open>sign\<close> is jwt.sign on the id and the email of the payload.  The columns that the
  INSERT of createUser leaves to their defaults are the parameter \<open>defaults\<close>, and the
  id it assigns is \<open>insertId\<close>.
\<close>

type_synonym user_row = "(string \<times> jv) list"

record auth_env =
  env_hash :: "string \<Rightarrow> string"
  env_compare :: "string \<Rightarrow> jv \<Rightarrow> bool option"
  env_sign :: "jv \<Rightarrow> jv \<Rightarrow> string"
  env_defaults :: "(string \<times> jv) list"
  env_insertId :: int

definition findUserByEmail :: "user_row list \<Rightarrow> string \<Rightarrow> user_row option" where
  "findUserByEmail db email = find (\<lambda>r. getProp r ''email'' = JStr email) db"

definition findUserById :: "user_row list \<Rightarrow> int \<Rightarrow> user_row option" where
  "findUserById db i = find (\<lambda>r. getProp r ''id'' = JNum i) db"

definition createUser ::
  "auth_env \<Rightarrow> user_row list \<Rightarrow> string \<Rightarrow> string \<Rightarrow> string \<Rightarrow> user_row list \<times> user_row option"
where
  "createUser env db name email password =
     (let password_hash = env_hash env password;
          db' = db @ [[(''id'', JNum (env_insertId env)), (''name'', JStr name), (''email'', JStr email),
                        (''password_hash'', JStr password_hash)] @ env_defaults env]
      in (db', findUserById db' (env_insertId env)))"

definition verifyPassword :: "auth_env \<Rightarrow> user_row \<Rightarrow> string \<Rightarrow> bool option" where
  "verifyPassword env user plain = env_compare env plain (getProp user ''password_hash'')"

text \<open>generateJwt reads \<open>user.id\<close> and \<open>user.email\<close>: on null it throws a TypeError.\<close>

definition generateJwt :: "auth_env \<Rightarrow> user_row option \<Rightarrow> js_error + string" where
  "generateJwt env user =
     (case user of
        None \<Rightarrow> Inl (TypeError ''Cannot read properties of null'')
      | Some u \<Rightarrow> Inr (env_sign env (getProp u ''id'') (getProp u ''email'')))"

text \<open>
  \<open>const { password_hash, ...rest } = user; return rest\<close>: every own property but
  password_hash, in order.
\<close>

definition sanitizeUser :: "user_row option \<Rightarrow> jv" where
  "sanitizeUser user =
     (case user of
        None \<Rightarrow> JNull
      | Some u \<Rightarrow> JObj (filter (\<lambda>kv. fst kv \<noteq> ''password_hash'') u))"

text \<open>
  The handlers return the table and the response: its status and its JSON body.  A field
  of the request body is None when it is absent; an empty string is falsy as well.  An
  exception inside a handler is caught and answered by 500 (with the message of the
  production mode; outside it the body carries the message of the error).
\<close>

definition messageBody :: "string \<Rightarrow> jv" where
  "messageBody m = JObj [(''message'', JStr m)]"

definition register ::
  "auth_env \<Rightarrow> user_row list \<Rightarrow> string option \<Rightarrow> string option \<Rightarrow> string option
     \<Rightarrow> user_row list \<times> nat \<times> jv"
where
  "register env db name email password =
     (case (name, email, password) of
        (Some n, Some e, Some p) \<Rightarrow>
          if n = [] \<or> e = [] \<or> p = [] then (db, 400, messageBody ''Missing fields'')
          else (case findUserByEmail db e of
                  Some existing \<Rightarrow> (db, 409, messageBody ''Email already in use'')
                | None \<Rightarrow>
                    (case createUser env db n e p of
                       (db', user) \<Rightarrow>
                         (case generateJwt env user of
                            Inl err \<Rightarrow> (db', 500, messageBody ''Server error'')
                          | Inr jwt \<Rightarrow>
                              (db', 201,
                               JObj [(''message'', JStr ''registered''), (''token'', JStr jwt),
                                     (''user'', sanitizeUser user)]))))
      | missing \<Rightarrow> (db, 400, messageBody ''Missing fields''))"

definition login ::
  "auth_env \<Rightarrow> user_row list \<Rightarrow> string option \<Rightarrow> string option \<Rightarrow> nat \<times> jv"
where
  "login env db email password =
     (case (email, password) of
        (Some e, Some p) \<Rightarrow>
          if e = [] \<or> p = [] then (400, messageBody ''Missing fields'')
          else (case findUserByEmail db e of
                  None \<Rightarrow> (401, messageBody ''Invalid credentials'')
                | Some user \<Rightarrow>
                    (case verifyPassword env user p of
                       None \<Rightarrow> (500, messageBody ''Server error'')
                     | Some ok \<Rightarrow>
                         if \<not> ok then (401, messageBody ''Invalid credentials'')
                         else (case generateJwt env (Some user) of
                                 Inl err \<Rightarrow> (500, messageBody ''Server error'')
                               | Inr jwt \<Rightarrow>
                                   (200, JObj [(''token'', JStr jwt),
                                               (''user'', sanitizeUser (Some user))]))))
      | missing \<Rightarrow> (400, messageBody ''Missing fields''))"

definition me :: "user_row list \<Rightarrow> int \<Rightarrow> nat \<times> jv" where
  "me db userId =
     (case findUserById db userId of
        None \<Rightarrow> (404, messageBody ''Not found'')
      | Some user \<Rightarrow> (200, JObj [(''user'', sanitizeUser (Some user))]))"

text \<open>The keys of an object (none for another value), and a successful status.\<close>

fun keysOf :: "jv \<Rightarrow> string list" where
  "keysOf (JObj kvs) = map fst kvs"
| "keysOf v = []"

fun fieldOf :: "jv \<Rightarrow> string \<Rightarrow> jv" where
  "fieldOf (JObj kvs) k = getProp kvs k"
| "fieldOf v k = JUndefined"

definition successful :: "nat \<Rightarrow> bool" where
  "successful st \<longleftrightarrow> 200 \<le> st \<and> st < 300"

text \<open>
  A response body carries a user object without the hash: its user field is an object
  that has no password_hash property, and the body has none at its top level.
\<close>

definition userObjectOk :: "jv \<Rightarrow> bool" where
  "userObjectOk body \<longleftrightarrow>
     (case fieldOf body ''user'' of
        JObj u \<Rightarrow> ''password_hash'' \<notin> set (map fst u)
      | v \<Rightarrow> False)
     \<and> ''password_hash'' \<notin> set (keysOf body)"

text \<open>A users table with one row, and stand-ins for bcrypt and jsonwebtoken.\<close>

definition sampleEnv :: auth_env where
  "sampleEnv = \<lparr>env_hash = (\<lambda>p. ''$2a$10$'' @ rev p),
                 env_compare = (\<lambda>p h. Some (h = JStr (''$2a$10$'' @ rev p))),
                 env_sign = (\<lambda>i e. ''header.payload.signature''),
                 env_defaults = [(''is_verified'', JNum 1)],
                 env_insertId = 2\<rparr>"

definition sampleUsers :: "user_row list" where
  "sampleUsers =
     [[(''id'', JNum 1), (''name'', JStr ''Ann''), (''email'', JStr ''ann@example.com''),
       (''password_hash'', JStr ''$2a$10$terces''), (''is_verified'', JNum 1)]]"

section \<open>The summarization adapter (deepseek.service)\<close>

subsection \<open>String functions of the runtime\<close>

text \<open>
  \<open>s.split(/[...]+/)\<close>: the pieces of s between the maximal runs of separator characters
  (an empty piece before a leading run and after a trailing one), and \<open>s.split(c)\<close> for a
  single character.  The accumulator holds the current piece, reversed.
\<close>

fun splitRunsAux :: "(char \<Rightarrow> bool) \<Rightarrow> string \<Rightarrow> bool \<Rightarrow> string \<Rightarrow> string list" where
  "splitRunsAux sep cur inRun [] = [rev cur]"
| "splitRunsAux sep cur inRun (c # cs) =
     (if sep c
      then (if inRun then splitRunsAux sep cur True cs else rev cur # splitRunsAux sep [] True cs)
      else splitRunsAux sep (c # cur) False cs)"

definition splitRuns :: "(char \<Rightarrow> bool) \<Rightarrow> string \<Rightarrow> string list" where
  "splitRuns sep s = splitRunsAux sep [] False s"

fun splitOnAux :: "char \<Rightarrow> string \<Rightarrow> string \<Rightarrow> string list" where
  "splitOnAux d cur [] = [rev cur]"
| "splitOnAux d cur (c # cs) =
     (if c = d then rev cur # splitOnAux d [] cs else splitOnAux d (c # cur) cs)"

definition splitOn :: "char \<Rightarrow> string \<Rightarrow> string list" where
  "splitOn d s = splitOnAux d [] s"

text \<open>The decimal digits of a natural number, as a template literal prints it.\<close>

function show_nat :: "nat \<Rightarrow> string" where
  "show_nat n =
     (if n < 10 then [char_of (48 + n)] else show_nat (n div 10) @ [char_of (48 + n mod 10)])"
  by pat_completeness auto
termination
  by (relation "measure id") auto

text \<open>
  \<open>s.replace(/```json\s*/gi, '')\<close> and \<open>s.replace(/```\s*/g, '')\<close>: every occurrence of
  the fence (given in lower case, compared without regard to case), with the white space
  that follows it, is removed, scanning from the left.
\<close>

function removeFence :: "string \<Rightarrow> string \<Rightarrow> string" where
  "removeFence fence [] = []"
| "removeFence fence (c # cs) =
     (if fence \<noteq> [] \<and> toLowerCase (take (length fence) (c # cs)) = fence
      then removeFence fence (dropWhile is_space (drop (length fence) (c # cs)))
      else c # removeFence fence cs)"
  by pat_completeness auto
termination
proof (relation "measure (\<lambda>(fence, s). length s)")
  show "wf (measure (\<lambda>(fence, s). length s))" by simp
next
  fix fence :: string and c cs
  assume "fence \<noteq> [] \<and> toLowerCase (take (length fence) (c # cs)) = fence"
  then have "length (drop (length fence) (c # cs)) < length (c # cs)"
    by (cases fence) simp_all
  moreover have "length (dropWhile is_space (drop (length fence) (c # cs)))
      \<le> length (drop (length fence) (c # cs))"
    by (rule length_dropWhile_le)
  ultimately show "((fence, dropWhile is_space (drop (length fence) (c # cs))), (fence, c # cs))
      \<in> measure (\<lambda>(fence, s). length s)"
    by simp
next
  fix fence :: string and c cs
  show "((fence, cs), (fence, c # cs)) \<in> measure (\<lambda>(fence, s). length s)" by simp
qed

text \<open>
  \<open>s.match(/\{[\s\S]*\}/)\<close>: from the first opening brace to the last closing brace
  after it, when there is one.
\<close>

definition matchBraces :: "string \<Rightarrow> string option" where
  "matchBraces s =
     (case dropWhile (\<lambda>c. c \<noteq> CHR ''{'') s of
        [] \<Rightarrow> None
      | c # cs \<Rightarrow>
          (case rev (dropWhile (\<lambda>c. c \<noteq> CHR ''}'') (rev cs)) of
             [] \<Rightarrow> None
           | body \<Rightarrow> Some (c # body)))"

text \<open>
  Reading a property: of null and undefined it throws a TypeError, of an object it is the
  value of the key or undefined, of any other value it is undefined.
\<close>

fun propE :: "jv \<Rightarrow> string \<Rightarrow> js_error + jv" where
  "propE JUndefined k = Inl (TypeError ''Cannot read properties of undefined'')"
| "propE JNull k = Inl (TypeError ''Cannot read properties of null'')"
| "propE (JObj kvs) k = Inr (getProp kvs k)"
| "propE v k = Inr JUndefined"

text \<open>\<open>(v || d).toLowerCase()\<close> for a string d: a truthy v that is not a string has no such method.\<close>

definition lowerOr :: "jv \<Rightarrow> string \<Rightarrow> js_error + string" where
  "lowerOr v d =
     (if truthy v
      then (case v of
              JStr s \<Rightarrow> Inr (toLowerCase s)
            | w \<Rightarrow> Inl (TypeError ''toLowerCase is not a function''))
      else Inr (toLowerCase d))"

subsection \<open>The service\<close>

text \<open>
  The result of generateSummary.  The summary is the value of the provider's summary
  field when the response was parsed, which may be any truthy JSON value; it is a string
  on every other path.
\<close>

record summary_result =
  sr_success :: bool
  sr_summary :: jv
  sr_sentiment :: string
  sr_provider :: string
  sr_error :: "string option"
  sr_fallback :: bool
  sr_extracted :: bool

definition validSentiments :: "string list" where
  "validSentiments = [''positive'', ''neutral'', ''negative'']"

definition positiveWords :: "string list" where
  "positiveWords = [''happy'', ''good'', ''great'', ''excellent'', ''wonderful'', ''amazing'',
     ''love'', ''joy'', ''excited'', ''grateful'', ''pleased'', ''delighted'', ''thrilled'',
     ''optimistic'', ''cheerful'', ''fantastic'', ''awesome'', ''brilliant'', ''perfect'',
     ''satisfied'', ''proud'', ''accomplished'', ''successful'', ''relaxed'', ''peaceful'']"

definition negativeWords :: "string list" where
  "negativeWords = [''sad'', ''bad'', ''terrible'', ''awful'', ''hate'', ''angry'', ''frustrated'',
     ''stressed'', ''worried'', ''disappointed'', ''upset'', ''depressed'', ''anxious'',
     ''overwhelmed'', ''miserable'', ''horrible'', ''disgusting'', ''annoyed'', ''irritated'',
     ''exhausted'', ''tired'', ''difficult'', ''challenging'', ''tough'']"

definition isPunct :: "char \<Rightarrow> bool" where
  "isPunct c \<longleftrightarrow> c = CHR ''.'' \<or> c = CHR ''!'' \<or> c = CHR ''?''"

definition generateFallbackSummary :: "string \<Rightarrow> string option \<Rightarrow> summary_result" where
  "generateFallbackSummary text err =
     (let words = length (splitRuns is_space text);
          sentences = length (filter (\<lambda>s. trim s \<noteq> []) (splitRuns isPunct text));
          lowerText = toLowerCase text;
          positiveCount = length (filter (\<lambda>w. js_includes lowerText w) positiveWords);
          negativeCount = length (filter (\<lambda>w. js_includes lowerText w) negativeWords);
          sentiment = (if positiveCount > negativeCount then ''positive''
                       else if negativeCount > positiveCount then ''negative''
                       else ''neutral'');
          firstSentence = trim (takeWhile (\<lambda>c. \<not> isPunct c) text);
          summary = ''Journal entry with '' @ show_nat words @ '' words and '' @ show_nat sentences
            @ '' sentence'' @ (if sentences = 1 then [] else ''s'') @ ''. ''
            @ (if length firstSentence > 50 then take 50 firstSentence @ ''...'' else firstSentence)
            @ '' ''
            @ (if sentiment = ''positive'' then ''Shows generally positive emotions and experiences.''
               else if sentiment = ''negative'' then ''Reflects some challenges or difficult emotions.''
               else ''Maintains a balanced, neutral tone.'')
      in \<lparr>sr_success = True, sr_summary = JStr summary, sr_sentiment = sentiment,
           sr_provider = ''deepseek-fallback'', sr_error = err, sr_fallback = True,
           sr_extracted = False\<rparr>)"

text \<open>
  extractManually: the last line that holds the word summary and a colon gives the
  summary (what follows the first colon, trimmed, its quotes removed); the sentiment is
  the first of positive, negative, neutral that the response holds, and neutral otherwise.
\<close>

definition summaryOfLine :: "string \<Rightarrow> string" where
  "summaryOfLine line =
     filter (\<lambda>c. c \<noteq> CHR 0x27 \<and> c \<noteq> CHR 0x22) (trim (tl (dropWhile (\<lambda>c. c \<noteq> CHR '':'') line)))"

definition extractSummary :: "string \<Rightarrow> string option" where
  "extractSummary responseText =
     foldl (\<lambda>summary line.
              if js_includes (toLowerCase line) ''summary'' \<and> CHR '':'' \<in> set line
              then Some (summaryOfLine line) else summary)
       None (filter (\<lambda>line. trim line \<noteq> []) (splitOn (CHR 0x0A) responseText))"

definition extractManually :: "string \<Rightarrow> summary_result" where
  "extractManually responseText =
     (let summary = extractSummary responseText;
          lowerResponse = toLowerCase responseText;
          sentiment = (if js_includes lowerResponse ''positive'' then ''positive''
                       else if js_includes lowerResponse ''negative'' then ''negative''
                       else ''neutral'')
      in \<lparr>sr_success = True,
           sr_summary = JStr (case summary of
                                None \<Rightarrow> ''Unable to extract summary from response''
                              | Some s \<Rightarrow> if s = [] then ''Unable to extract summary from response'' else s),
           sr_sentiment = sentiment, sr_provider = ''deepseek'', sr_error = None,
           sr_fallback = False, sr_extracted = True\<rparr>)"

text \<open>The text that parseResponse hands to JSON.parse, when it finds one.\<close>

definition cleanResponse :: "string \<Rightarrow> string" where
  "cleanResponse responseText =
     trim (rev (dropWhile (\<lambda>c. c \<noteq> CHR ''}'')
       (rev (dropWhile (\<lambda>c. c \<noteq> CHR ''{'')
         (removeFence ''```'' (removeFence ''```json'' responseText))))))"

text \<open>The sentiment that parseResponse derives from the summary text by its keywords.\<close>

definition sentimentOfSummary :: "string \<Rightarrow> string" where
  "sentimentOfSummary summaryLower =
     (if js_includes summaryLower ''positive'' \<or> js_includes summaryLower ''good''
         \<or> js_includes summaryLower ''happy'' then ''positive''
      else if js_includes summaryLower ''negative'' \<or> js_includes summaryLower ''bad''
         \<or> js_includes summaryLower ''sad'' then ''negative''
      else ''neutral'')"

text \<open>The body of the try block of parseResponse: Inl is an exception thrown inside it.\<close>

definition parseResponseTry :: "json_parse \<Rightarrow> string \<Rightarrow> js_error + summary_result" where
  "parseResponseTry jparse responseText =
     (case matchBraces (cleanResponse responseText) of
        None \<Rightarrow> Inl (Error ''No valid JSON found in response'')
      | Some jsonMatch \<Rightarrow>
          (case jparse jsonMatch of
             None \<Rightarrow> Inl SyntaxError
           | Some parsed \<Rightarrow>
               (case propE parsed ''sentiment'' of
                  Inl e \<Rightarrow> Inl e
                | Inr sv \<Rightarrow>
                    (case lowerOr sv ''neutral'' of
                       Inl e \<Rightarrow> Inl e
                     | Inr sentiment \<Rightarrow>
                         (case propE parsed ''summary'' of
                            Inl e \<Rightarrow> Inl e
                          | Inr summary \<Rightarrow>
                              (case (if sentiment \<notin> set validSentiments
                                     then map_sum id sentimentOfSummary (lowerOr summary [])
                                     else Inr sentiment) of
                                 Inl e \<Rightarrow> Inl e
                               | Inr sentiment' \<Rightarrow>
                                   Inr \<lparr>sr_success = True,
                                        sr_summary = (if truthy summary then summary
                                                      else JStr ''Summary not available''),
                                        sr_sentiment = sentiment', sr_provider = ''deepseek'',
                                        sr_error = None, sr_fallback = False,
                                        sr_extracted = False\<rparr>))))))"

definition parseResponse :: "json_parse \<Rightarrow> string \<Rightarrow> summary_result" where
  "parseResponse jparse responseText =
     (case parseResponseTry jparse responseText of
        Inl parseError \<Rightarrow> extractManually responseText
      | Inr result \<Rightarrow> result)"

text \<open>
  The provider.  An attempt of the remote call either throws (an error of the transport,
  or the timeout) or returns a completion; a completion either lacks
  \<open>choices[0].message\<close> or carries a message, whose content may be absent.  The behaviour
  of the provider is the outcome of each attempt, by its number.  Waiting (the timeout
  and the backoff between attempts) is not modelled.
\<close>

datatype completion = BadShape | ChatMessage "string option"

datatype attempt = Throws string | Returns completion

text \<open>
  The retry loop: \<open>attempt\<close> is the number of the next attempt, \<open>remaining\<close> the
  attempts left; it stops at the first attempt that returns.
\<close>

fun callLoop :: "(nat \<Rightarrow> attempt) \<Rightarrow> nat \<Rightarrow> nat \<Rightarrow> string option \<Rightarrow> completion option \<times> string option" where
  "callLoop provider attempt 0 lastError = (None, lastError)"
| "callLoop provider attempt (Suc remaining) lastError =
     (case provider attempt of
        Returns chatCompletion \<Rightarrow> (Some chatCompletion, lastError)
      | Throws err \<Rightarrow> callLoop provider (Suc attempt) remaining (Some err))"

text \<open>
  The environment of the service: the value of DEEPSEEK_MOCK, and whether the client was
  created (HF_TOKEN is set and the constructor did not throw).
\<close>

record deepseek_env =
  DEEPSEEK_MOCK :: "string option"
  clientAvailable :: bool

definition mockSummary :: string where
  "mockSummary =
     ''{\"summary\":\"Mock summary: consistent progress and steady mood.\",\"sentiment\":\"neutral\"}''"

definition mockResult :: summary_result where
  "mockResult = \<lparr>sr_success = True, sr_summary = JStr mockSummary, sr_sentiment = ''neutral'',
     sr_provider = ''mock'', sr_error = None, sr_fallback = False, sr_extracted = False\<rparr>"

text \<open>\<open>options.retries >= 0 ? options.retries + 1 : 2\<close>\<close>

definition maxAttempts :: "int option \<Rightarrow> nat" where
  "maxAttempts retries =
     (case retries of None \<Rightarrow> 2 | Some r \<Rightarrow> if r \<ge> 0 then nat (r + 1) else 2)"

definition generateSummary ::
  "deepseek_env \<Rightarrow> json_parse \<Rightarrow> (nat \<Rightarrow> attempt) \<Rightarrow> string \<Rightarrow> int option \<Rightarrow> summary_result"
where
  "generateSummary env jparse provider text retries =
     (if DEEPSEEK_MOCK env = Some ''true'' then mockResult
      else if \<not> clientAvailable env then generateFallbackSummary text None
      else
        (case callLoop provider 1 (maxAttempts retries) None of
           (Some (ChatMessage content), lastError) \<Rightarrow>
             parseResponse jparse (trim (case content of None \<Rightarrow> [] | Some c \<Rightarrow> c))
         | (Some BadShape, lastError) \<Rightarrow>
             generateFallbackSummary text
               (Some (''Invalid DeepSeek response shape''
                  @ (case lastError of None \<Rightarrow> [] | Some m \<Rightarrow> '': '' @ m)))
         | (None, lastError) \<Rightarrow>
             generateFallbackSummary text
               (Some (''Invalid DeepSeek response shape''
                  @ (case lastError of None \<Rightarrow> [] | Some m \<Rightarrow> '': '' @ m)))))"

section \<open>The dashboard's AI analysis (dashboard.service)\<close>

text \<open>
  The data of an analysis request.  The analysis that generateAIAnalysis returns is kept
  by its summary, its suggestions and its provider; the insights, the confidence and the
  time stamp are computed from values that are already at hand (no step of theirs can
  throw) and are left out.  The summary of a parsed analysis is whatever truthy value the
  payload holds.
\<close>

record dashboard_data =
  d_goals :: "goal list option"
  d_moods :: "mood list option"
  d_medRuns :: "medRun list option"
  d_journalEntries :: "journalEntry list option"

record analysis =
  a_summary :: jv
  a_suggestions :: "jv list"
  a_provider :: string

text \<open>
  buildAnalysisPrompt computes the statistics and fills a template with them.  The text
  of the filled template is the parameter \<open>render\<close>.
\<close>

definition buildAnalysisPrompt :: "(stats \<Rightarrow> dashboard_data \<Rightarrow> string) \<Rightarrow> dashboard_data \<Rightarrow> string" where
  "buildAnalysisPrompt render data =
     render (calculateStats (d_goals data) (d_moods data) (d_medRuns data) (d_journalEntries data)) data"

definition defaultSuggestions :: "jv list" where
  "defaultSuggestions =
     [JStr ''Continue your current tracking habits'',
      JStr ''Set specific, measurable goals'',
      JStr ''Maintain regular meditation practice'',
      JStr ''Review your progress weekly'']"

text \<open>typeof v === 'object' and v !== null\<close>

fun isObject :: "jv \<Rightarrow> bool" where
  "isObject (JObj kvs) = True"
| "isObject (JArr xs) = True"
| "isObject v = False"

text \<open>The value that parseAIAnalysis reads its fields from, or the exception of finding it.\<close>

definition parsedOf :: "json_parse \<Rightarrow> jv \<Rightarrow> js_error + jv" where
  "parsedOf jparse aiResponse =
     (if isObject aiResponse then Inr aiResponse
      else (case aiResponse of
              JStr s \<Rightarrow>
                (case jparse s of
                   Some v \<Rightarrow> Inr v
                 | None \<Rightarrow>
                     (case matchBraces (trim (removeFence ''```'' (removeFence ''```json'' s))) of
                        Some jsonMatch \<Rightarrow>
                          (case jparse jsonMatch of Some v \<Rightarrow> Inr v | None \<Rightarrow> Inl SyntaxError)
                      | None \<Rightarrow> Inl (Error ''No valid JSON found in AI response'')))
            | v \<Rightarrow> Inl (Error ''Unsupported AI response type'')))"

definition parseAIAnalysisTry :: "json_parse \<Rightarrow> jv \<Rightarrow> js_error + (jv \<times> jv list)" where
  "parseAIAnalysisTry jparse aiResponse =
     (case parsedOf jparse aiResponse of
        Inl e \<Rightarrow> Inl e
      | Inr parsed \<Rightarrow>
          (case propE parsed ''summary'' of
             Inl e \<Rightarrow> Inl e
           | Inr summary \<Rightarrow>
               (case propE parsed ''suggestions'' of
                  Inl e \<Rightarrow> Inl e
                | Inr suggestions \<Rightarrow>
                    Inr (if truthy summary then summary
                         else JStr ''Your wellness journey shows consistent engagement across multiple areas.'',
                         case suggestions of
                           JArr xs \<Rightarrow> take 4 xs
                         | v \<Rightarrow> if truthy v then take 4 [v] else defaultSuggestions))))"

text \<open>extractInsightsManually calls \<open>text.toLowerCase()\<close>, which only a string has.\<close>

definition extractInsightsManually :: "jv \<Rightarrow> js_error + (jv \<times> jv list)" where
  "extractInsightsManually v =
     (case v of
        JStr s \<Rightarrow>
          (let lowerText = toLowerCase s;
               summary =
                 (if js_includes lowerText ''progress'' \<or> js_includes lowerText ''improvement''
                  then ''Your wellness journey demonstrates positive progress and consistent engagement with your goals.''
                  else if js_includes lowerText ''challenge'' \<or> js_includes lowerText ''difficult''
                  then ''Your data reveals some challenges, but also shows commitment to tracking and self-improvement.''
                  else ''Your wellness data shows active engagement across goals, mood tracking, and mindfulness practices.'')
           in Inr (JStr summary,
                   [JStr ''Review your goal completion patterns for insights'',
                    JStr ''Consider increasing meditation frequency if possible'',
                    JStr ''Track mood patterns to identify triggers'',
                    JStr ''Celebrate your progress and maintain consistency'']))
      | JUndefined \<Rightarrow> Inl (TypeError ''Cannot read properties of undefined'')
      | JNull \<Rightarrow> Inl (TypeError ''Cannot read properties of null'')
      | w \<Rightarrow> Inl (TypeError ''text.toLowerCase is not a function''))"

definition parseAIAnalysis :: "json_parse \<Rightarrow> jv \<Rightarrow> js_error + (jv \<times> jv list)" where
  "parseAIAnalysis jparse aiResponse =
     (case parseAIAnalysisTry jparse aiResponse of
        Inl e \<Rightarrow> extractInsightsManually aiResponse
      | Inr r \<Rightarrow> Inr r)"

definition pushIf :: "bool \<Rightarrow> 'a \<Rightarrow> 'a list \<Rightarrow> 'a list" where
  "pushIf c x xs = (if c then xs @ [x] else xs)"

definition numLess :: "rat option \<Rightarrow> rat \<Rightarrow> bool" where
  "numLess v bound = (case v of None \<Rightarrow> False | Some q \<Rightarrow> q < bound)"

definition generateFallbackAnalysis :: "dashboard_data \<Rightarrow> analysis" where
  "generateFallbackAnalysis data =
     (let st = calculateStats (d_goals data) (d_moods data) (d_medRuns data) (d_journalEntries data);
          summary = ''You've been actively tracking your wellness with '' @ show_nat (totalGoals st)
            @ '' goals, '' @ show_nat (len_or0 (d_moods data)) @ '' mood entries, and ''
            @ show_nat (totalMedSessions st) @ '' meditation sessions. ''
            @ (if completionRate st > 70
               then ''Your goal completion rate is excellent, showing strong commitment to your objectives.''
               else if completionRate st > 40
               then ''You're making good progress on your goals with room for continued growth.''
               else ''Consider reviewing your goals to ensure they're achievable and aligned with your priorities.'');
          s1 = pushIf (openGoals st > 5)
                 (JStr ''Focus on completing existing goals before adding new ones'') [];
          s2 = pushIf (numLess (avgMood st) (7 / 2))
                 (JStr ''Consider mood-boosting activities like exercise or social connection'') s1;
          s3 = (if totalMedSessions st < 5
                then s2 @ [JStr ''Try incorporating more regular meditation sessions'']
                else if totalMedMinutes st < 60
                then s2 @ [JStr ''Consider longer meditation sessions for deeper practice'']
                else s2);
          s4 = (if length s3 < 3
                then s3 @ [JStr ''Continue your consistent tracking habits'',
                           JStr ''Set weekly review times to assess progress'',
                           JStr ''Celebrate small wins along your wellness journey'']
                else s3)
      in \<lparr>a_summary = JStr summary, a_suggestions = take 4 s4, a_provider = ''fallback''\<rparr>)"

text \<open>\<open>String(v)\<close> for the values that are neither a string nor an object.\<close>

definition show_int :: "int \<Rightarrow> string" where
  "show_int n = (if n < 0 then ''-'' @ show_nat (nat (- n)) else show_nat (nat n))"

fun scalarString :: "jv \<Rightarrow> string" where
  "scalarString (JNum n) = show_int n"
| "scalarString (JBool b) = (if b then ''true'' else ''false'')"
| "scalarString JNull = ''null''"
| "scalarString v = ''undefined''"

text \<open>
  The payload that generateAIAnalysis hands to parseAIAnalysis: an object as it is, a
  string parsed as JSON and, when that fails, wrapped with the top-level fields of the
  result, any other value wrapped as its text.
\<close>

definition aiPayloadOf :: "json_parse \<Rightarrow> summary_result \<Rightarrow> jv" where
  "aiPayloadOf jparse result =
     (if isObject (sr_summary result) then sr_summary result
      else (case sr_summary result of
              JStr s \<Rightarrow>
                (case jparse s of
                   Some v \<Rightarrow> v
                 | None \<Rightarrow>
                     JObj [(''summary'', JStr s),
                           (''sentiment'', if sr_sentiment result = [] then JNull
                                           else JStr (sr_sentiment result)),
                           (''providerMeta'', JNull)])
            | v \<Rightarrow> JObj [(''summary'', JStr (scalarString v))]))"

text \<open>
  The branch of generateAIAnalysis for a result that reports success and has a truthy
  summary: the payload is parsed and the analysis is built from it.
\<close>

definition analysisOf :: "json_parse \<Rightarrow> summary_result \<Rightarrow> js_error + analysis" where
  "analysisOf jparse result =
     (case parseAIAnalysis jparse (aiPayloadOf jparse result) of
        Inl e \<Rightarrow> Inl e
      | Inr (summary, suggestions) \<Rightarrow>
          Inr \<lparr>a_summary = summary, a_suggestions = suggestions,
               a_provider = (if sr_provider result = [] then ''deepseek'' else sr_provider result)\<rparr>)"

definition generateAIAnalysisTry ::
  "deepseek_env \<Rightarrow> json_parse \<Rightarrow> (nat \<Rightarrow> attempt) \<Rightarrow> (stats \<Rightarrow> dashboard_data \<Rightarrow> string)
     \<Rightarrow> dashboard_data \<Rightarrow> js_error + analysis"
where
  "generateAIAnalysisTry env jparse provider render data =
     (let analysisPrompt = buildAnalysisPrompt render data;
          result = generateSummary env jparse provider analysisPrompt None
      in if sr_success result \<and> truthy (sr_summary result)
         then analysisOf jparse result
         else Inl (Error (case sr_error result of
                            None \<Rightarrow> ''AI analysis failed''
                          | Some m \<Rightarrow> if m = [] then ''AI analysis failed'' else m)))"

text \<open>The handler of the whole function: any exception leads to the fallback analysis.\<close>

definition generateAIAnalysis ::
  "deepseek_env \<Rightarrow> json_parse \<Rightarrow> (nat \<Rightarrow> attempt) \<Rightarrow> (stats \<Rightarrow> dashboard_data \<Rightarrow> string)
     \<Rightarrow> dashboard_data \<Rightarrow> analysis"
where
  "generateAIAnalysis env jparse provider render data =
     (case generateAIAnalysisTry env jparse provider render data of
        Inl err \<Rightarrow> generateFallbackAnalysis data
      | Inr a \<Rightarrow> a)"






text \<open>
  An analysis request, a template stand-in, and three providers: one that is not
  configured, one whose every attempt times out, and one that answers with prose.
\<close>

definition sampleData :: dashboard_data where
  "sampleData = \<lparr>d_goals = Some sampleGoals, d_moods = Some sampleMoods, d_medRuns = Some [],
     d_journalEntries = None\<rparr>"

definition sampleRender :: "stats \<Rightarrow> dashboard_data \<Rightarrow> string" where
  "sampleRender st data = ''Please analyze: '' @ show_nat (totalGoals st) @ '' goals.''"



definition mockEnv :: deepseek_env where
  "mockEnv = \<lparr>DEEPSEEK_MOCK = Some ''true'', clientAvailable = False\<rparr>"

definition timingOut :: "nat \<Rightarrow> attempt" where
  "timingOut n = Throws ''DeepSeek request timed out''"

definition answeringProse :: "nat \<Rightarrow> attempt" where
  "answeringProse n =
     (if n = 1 then Throws ''DeepSeek request timed out''
      else Returns (ChatMessage (Some ''Summary: steady week'')))"

section \<open>Verified properties: dashboard statistics\<close>




lemma moodIdx_lt: "moodIdx m < 5"
  by (simp add: moodIdx_def)









section \<open>Verified properties: goals\<close>

lemma no_match_other_user:
  assumes "distinct (map gr_id db)" "g \<in> set db" "gr_user_id g \<noteq> a"
  shows "\<forall>r\<in>set db. \<not> (gr_id r = gr_id g \<and> gr_user_id r = a)"
proof
  fix r assume r: "r \<in> set db"
  show "\<not> (gr_id r = gr_id g \<and> gr_user_id r = a)"
  proof
    assume h: "gr_id r = gr_id g \<and> gr_user_id r = a"
    from assms(1) have "inj_on gr_id (set db)" by (simp add: distinct_map)
    with r assms(2) h have "r = g" by (auto dest: inj_onD)
    with h assms(3) show False by simp
  qed
qed

lemma getGoalById_none: "\<forall>r\<in>set db. \<not> (gr_id r = i \<and> gr_user_id r = a) \<Longrightarrow> getGoalById db i a = None"
  by (simp add: getGoalById_def find_None_iff)

lemma updateGoal_none:
  assumes "\<forall>r\<in>set db. \<not> (gr_id r = i \<and> gr_user_id r = a)"
  shows "updateGoal db i a ch = (db, None)"
proof -
  have "map (\<lambda>r. if gr_id r = i \<and> gr_user_id r = a then setFields ch r else r) db = db"
    using assms by (intro map_idI) auto
  with assms show ?thesis by (simp add: updateGoal_def Let_def getGoalById_none)
qed

lemma deleteGoal_none:
  assumes "\<forall>r\<in>set db. \<not> (gr_id r = i \<and> gr_user_id r = a)"
  shows "deleteGoal db i a = (db, False)"
proof -
  have "filter (\<lambda>r. \<not> (gr_id r = i \<and> gr_user_id r = a)) db = db"
    using assms by (intro filter_True) auto
  then show ?thesis by (simp add: deleteGoal_def Let_def)
qed

text \<open>
  Claim C6.  Let the ids of the goals table be distinct (id is its primary key), let g be
  a goal owned by user b, and let a be another user.  Then for user a getGoalById returns
  null and the controller answers 404 'Not found'; updateGoal returns null, leaves the
  table as it is, and the controller answers 404; deleteGoal returns false, leaves the
  table as it is, and the controller answers 404.  Each answer is the one the same request
  gets on the table without the row: the goal of another user cannot be told from a goal
  that does not exist, and no answer is a 'forbidden'.
\<close>

theorem cross_user_not_found:
  assumes "distinct (map gr_id db)" and "g \<in> set db" and "gr_user_id g = b" and "a \<noteq> b"
  shows "getGoalById db (gr_id g) a = None
    \<and> getOne db a (gr_id g) = \<lparr>rs_status = 404, rs_body = Message ''Not found''\<rparr>
    \<and> updateGoal db (gr_id g) a ch = (db, None)
    \<and> update db a (gr_id g) ch = (db, \<lparr>rs_status = 404, rs_body = Message ''Not found or not allowed''\<rparr>)
    \<and> deleteGoal db (gr_id g) a = (db, False)
    \<and> remove db a (gr_id g) = (db, \<lparr>rs_status = 404, rs_body = Message ''Not found''\<rparr>)
    \<and> getOne db a (gr_id g) = getOne (filter (\<lambda>r. gr_id r \<noteq> gr_id g) db) a (gr_id g)
    \<and> snd (update db a (gr_id g) ch) = snd (update (filter (\<lambda>r. gr_id r \<noteq> gr_id g) db) a (gr_id g) ch)
    \<and> snd (remove db a (gr_id g)) = snd (remove (filter (\<lambda>r. gr_id r \<noteq> gr_id g) db) a (gr_id g))"
proof -
  from assms have nm: "\<forall>r\<in>set db. \<not> (gr_id r = gr_id g \<and> gr_user_id r = a)"
    by (intro no_match_other_user) auto
  have nm0: "\<forall>r\<in>set (filter (\<lambda>r. gr_id r \<noteq> gr_id g) db). \<not> (gr_id r = gr_id g \<and> gr_user_id r = a)"
    by simp
  show ?thesis
    by (simp add: getOne_def update_def remove_def getGoalById_none [OF nm] getGoalById_none [OF nm0]
        updateGoal_none [OF nm] updateGoal_none [OF nm0] deleteGoal_none [OF nm] deleteGoal_none [OF nm0])
qed

theorem cross_user_not_found_witness:
  "getGoalById [goalOf7, goalOf8] 2 7 = None
   \<and> getGoalById [goalOf7, goalOf8] 2 8 = Some goalOf8
   \<and> updateGoal [goalOf7, goalOf8] 2 7 toggleOn = ([goalOf7, goalOf8], None)
   \<and> deleteGoal [goalOf7, goalOf8] 2 7 = ([goalOf7, goalOf8], False)
   \<and> getOne [goalOf7, goalOf8] 7 2 = getOne [goalOf7] 7 2"
proof -
  have d: "distinct (map gr_id [goalOf7, goalOf8])" and m: "goalOf8 \<in> set [goalOf7, goalOf8]"
    and u: "gr_user_id goalOf8 = 8" and i: "gr_id goalOf8 = 2" and n: "(7::nat) \<noteq> 8"
    and f: "filter (\<lambda>r. gr_id r \<noteq> 2) [goalOf7, goalOf8] = [goalOf7]"
    by (simp_all add: goalOf7_def goalOf8_def)
  have own: "getGoalById [goalOf7, goalOf8] 2 8 = Some goalOf8"
    by (simp add: getGoalById_def goalOf7_def goalOf8_def)
  note t = cross_user_not_found [OF d m u n, of toggleOn, unfolded i f]
  from t own show ?thesis by blast
qed

lemma patch_keeps: "(\<And>v x. f (assign v x) = f x) \<Longrightarrow> f (patch field assign r) = f r"
  by (simp add: patch_def split: option.splits)

lemma patch_simps [simp]: "patch None assign r = r" "patch (Some v) assign r = assign v r"
  by (simp_all add: patch_def)

lemma setFields_keys [simp]:
  "gr_id (setFields ch r) = gr_id r" "gr_user_id (setFields ch r) = gr_user_id r"
  by (simp_all add: setFields_def patch_keeps)

lemma setFields_completed:
  "gr_completed (setFields ch r) = (case ch_completed ch of None \<Rightarrow> gr_completed r | Some v \<Rightarrow> v)"
  "gr_completed_at (setFields ch r) =
     (case ch_completed_at ch of None \<Rightarrow> gr_completed_at r | Some v \<Rightarrow> v)"
proof -
  have "gr_completed (setFields ch r)
      = gr_completed (patch (ch_completed ch) (\<lambda>v x. x\<lparr>gr_completed := v\<rparr>)
             (patch (ch_due_at ch) (\<lambda>v x. x\<lparr>gr_due_at := v\<rparr>)
               (patch (ch_note ch) (\<lambda>v x. x\<lparr>gr_note := v\<rparr>)
                 (patch (ch_title ch) (\<lambda>v x. x\<lparr>gr_title := v\<rparr>) r))))"
    by (simp add: setFields_def patch_keeps)
  also have "\<dots> = (case ch_completed ch of None \<Rightarrow> gr_completed r | Some v \<Rightarrow> v)"
    by (cases "ch_completed ch") (simp_all add: patch_keeps)
  finally show "gr_completed (setFields ch r)
      = (case ch_completed ch of None \<Rightarrow> gr_completed r | Some v \<Rightarrow> v)" .
  have "gr_completed_at (setFields ch r)
      = gr_completed_at (patch (ch_completed_at ch) (\<lambda>v x. x\<lparr>gr_completed_at := v\<rparr>)
           (patch (ch_completed ch) (\<lambda>v x. x\<lparr>gr_completed := v\<rparr>)
             (patch (ch_due_at ch) (\<lambda>v x. x\<lparr>gr_due_at := v\<rparr>)
               (patch (ch_note ch) (\<lambda>v x. x\<lparr>gr_note := v\<rparr>)
                 (patch (ch_title ch) (\<lambda>v x. x\<lparr>gr_title := v\<rparr>) r)))))"
    by (simp add: setFields_def patch_keeps)
  also have "\<dots> = (case ch_completed_at ch of None \<Rightarrow> gr_completed_at r | Some v \<Rightarrow> v)"
    by (cases "ch_completed_at ch") (simp_all add: patch_keeps)
  finally show "gr_completed_at (setFields ch r)
      = (case ch_completed_at ch of None \<Rightarrow> gr_completed_at r | Some v \<Rightarrow> v)" .
qed

lemma find_map_keys:
  "(\<And>r. P (f r) = P r) \<Longrightarrow> find P (map (\<lambda>r. if P r then f r else r) xs) = map_option f (find P xs)"
  by (induction xs) auto

lemma updateGoal_found:
  assumes "\<not> noFields ch" and "getGoalById db i u = Some g0"
  shows "updateGoal db i u ch =
     (map (\<lambda>r. if gr_id r = i \<and> gr_user_id r = u then setFields ch r else r) db,
      Some (setFields ch g0))"
proof -
  have "find (\<lambda>r. gr_id r = i \<and> gr_user_id r = u)
          (map (\<lambda>r. if gr_id r = i \<and> gr_user_id r = u then setFields ch r else r) db)
        = map_option (setFields ch) (find (\<lambda>r. gr_id r = i \<and> gr_user_id r = u) db)"
    by (rule find_map_keys) simp
  with assms show ?thesis by (simp add: updateGoal_def Let_def getGoalById_def)
qed

lemma setFields_toggleOn:
  "setFields toggleOn r = r\<lparr>gr_completed := True, gr_completed_at := Some ''2025-10-29''\<rparr>"
  by (simp add: setFields_def toggleOn_def noChanges_def)

lemma setFields_onlyCompleted: "setFields onlyCompleted r = r\<lparr>gr_completed := True\<rparr>"
  by (simp add: setFields_def onlyCompleted_def noChanges_def)

lemma sample_lookup:
  "getGoalById [goalOf7, goalOf8] 1 7 = Some goalOf7"
  "gr_id goalOf7 = 1" "gr_user_id goalOf7 = 7" "gr_id goalOf8 = 2" "gr_user_id goalOf8 = 8"
  by (simp_all add: getGoalById_def goalOf7_def goalOf8_def)

text \<open>
  Claim C4, as the code has it.  updateGoal patches the completed and the completed_at
  columns independently, each only when the request supplies it.  When a single update
  supplies both, with completed truthy exactly when completed_at is not null (as the
  toggle of the Goals page does), and the goal exists for the user, the update succeeds
  and the row returned, the row read back and every stored row of that id and owner have
  completed true if and only if completed_at is not null.
\<close>

theorem update_completion_consistent:
  assumes "ch_completed ch = Some c" and "ch_completed_at ch = Some t" and "c \<longleftrightarrow> t \<noteq> None"
    and "getGoalById db i u = Some g0"
  shows "\<exists>db' g. updateGoal db i u ch = (db', Some g)
      \<and> update db u i ch = (db', \<lparr>rs_status = 200, rs_body = GoalObj g\<rparr>)
      \<and> gr_id g = i \<and> gr_user_id g = u
      \<and> gr_completed g = c \<and> gr_completed_at g = t
      \<and> (gr_completed g \<longleftrightarrow> gr_completed_at g \<noteq> None)
      \<and> getGoalById db' i u = Some g
      \<and> list_all (\<lambda>r. gr_id r = i \<and> gr_user_id r = u \<longrightarrow>
                        (gr_completed r \<longleftrightarrow> gr_completed_at r \<noteq> None)) db'"
proof -
  let ?P = "\<lambda>r. gr_id r = i \<and> gr_user_id r = u"
  let ?db = "map (\<lambda>r. if ?P r then setFields ch r else r) db"
  from assms(1) have nf: "\<not> noFields ch" by (simp add: noFields_def)
  from assms(4) have "?P g0" by (auto simp: getGoalById_def dest: find_Some_iff [THEN iffD1])
  have u: "updateGoal db i u ch = (?db, Some (setFields ch g0))"
    by (rule updateGoal_found [OF nf assms(4)])
  then have r: "getGoalById ?db i u = Some (setFields ch g0)"
    using nf by (simp add: updateGoal_def Let_def)
  have fc: "gr_completed (setFields ch x) = c" "gr_completed_at (setFields ch x) = t" for x
    using assms(1,2) by (simp_all add: setFields_completed)
  have all: "list_all (\<lambda>r. ?P r \<longrightarrow> (gr_completed r \<longleftrightarrow> gr_completed_at r \<noteq> None)) ?db"
    unfolding list_all_iff
  proof (intro ballI impI)
    fix r assume m: "r \<in> set ?db" and p: "?P r"
    from m obtain r0 where r0: "r = (if ?P r0 then setFields ch r0 else r0)"
      unfolding set_map by (rule imageE)
    show "gr_completed r \<longleftrightarrow> gr_completed_at r \<noteq> None"
    proof (cases "?P r0")
      case True
      with r0 have "r = setFields ch r0" by simp
      with fc assms(3) show ?thesis by simp
    next
      case False
      with r0 p show ?thesis by simp
    qed
  qed
  have upd: "update db u i ch = (?db, \<lparr>rs_status = 200, rs_body = GoalObj (setFields ch g0)\<rparr>)"
    by (simp add: update_def u)
  have g: "gr_id (setFields ch g0) = i \<and> gr_user_id (setFields ch g0) = u"
    using \<open>?P g0\<close> by simp
  have cons: "gr_completed (setFields ch g0) \<longleftrightarrow> gr_completed_at (setFields ch g0) \<noteq> None"
    using fc assms(3) by simp
  from u upd g fc [of g0] cons r all show ?thesis by blast
qed

theorem update_completion_consistent_witness:
  "update [goalOf7, goalOf8] 7 1 toggleOn =
     ([goalOf7\<lparr>gr_completed := True, gr_completed_at := Some ''2025-10-29''\<rparr>, goalOf8],
      \<lparr>rs_status = 200,
        rs_body = GoalObj (goalOf7\<lparr>gr_completed := True, gr_completed_at := Some ''2025-10-29''\<rparr>)\<rparr>)"
proof -
  have a: "ch_completed toggleOn = Some True" "ch_completed_at toggleOn = Some (Some ''2025-10-29'')"
    "True \<longleftrightarrow> Some ''2025-10-29'' \<noteq> None"
    by (simp_all add: toggleOn_def noChanges_def)
  have nf: "\<not> noFields toggleOn" by (simp add: noFields_def toggleOn_def noChanges_def)
  have c: "updateGoal [goalOf7, goalOf8] 1 7 toggleOn =
     ([goalOf7\<lparr>gr_completed := True, gr_completed_at := Some ''2025-10-29''\<rparr>, goalOf8],
      Some (goalOf7\<lparr>gr_completed := True, gr_completed_at := Some ''2025-10-29''\<rparr>))"
    by (subst updateGoal_found [OF nf sample_lookup(1)]) (simp add: sample_lookup setFields_toggleOn)
  from update_completion_consistent [OF a sample_lookup(1)] c show ?thesis by auto
qed

text \<open>
  The claim as stated fails: a PUT with only \<open>{completed: true}\<close> on an open goal
  stores and returns completed = true with completed_at still null.
\<close>

theorem update_completed_only_counterexample:
  "update [goalOf7, goalOf8] 7 1 onlyCompleted =
     ([goalOf7\<lparr>gr_completed := True\<rparr>, goalOf8],
      \<lparr>rs_status = 200, rs_body = GoalObj (goalOf7\<lparr>gr_completed := True\<rparr>)\<rparr>)
   \<and> gr_completed (goalOf7\<lparr>gr_completed := True\<rparr>) = True
   \<and> gr_completed_at (goalOf7\<lparr>gr_completed := True\<rparr>) = None"
proof -
  have nf: "\<not> noFields onlyCompleted" by (simp add: noFields_def onlyCompleted_def noChanges_def)
  have "updateGoal [goalOf7, goalOf8] 1 7 onlyCompleted =
     ([goalOf7\<lparr>gr_completed := True\<rparr>, goalOf8], Some (goalOf7\<lparr>gr_completed := True\<rparr>))"
    by (subst updateGoal_found [OF nf sample_lookup(1)]) (simp add: sample_lookup setFields_onlyCompleted)
  moreover have "gr_completed_at goalOf7 = None" by (simp add: goalOf7_def)
  ultimately show ?thesis by (simp add: update_def)
qed

section \<open>Verified properties: mood entries\<close>

lemma parseIntOr_nonzero: "d \<noteq> 0 \<Longrightarrow> parseIntOr d v \<noteq> 0"
  by (simp add: parseIntOr_def split: option.splits)




lemma samplePayload_fresh: "strOr (mp_id samplePayload) ''moodX'' = ''mood1''"
  "strOr (mp_id outOfRangePayload) ''moodX'' = ''mood1''"
  by (simp_all add: samplePayload_def outOfRangePayload_def strOr_def)



section \<open>Verified properties: tags that are not JSON\<close>






section \<open>Verified properties: authentication\<close>

lemma sanitizeUser_Some:
  "sanitizeUser (Some u) = JObj (filter (\<lambda>kv. fst kv \<noteq> ''password_hash'') u)"
  by (simp add: sanitizeUser_def)

lemma sanitized_no_hash: "''password_hash'' \<notin> set (map fst (filter (\<lambda>kv. fst kv \<noteq> ''password_hash'') u))"
  by (induction u) auto

lemma register_ok:
  assumes "register env db name email password = (db', st, body)" and "successful st"
  shows "userObjectOk body"
proof -
  from assms obtain user jwt where
    b: "body = JObj [(''message'', JStr ''registered''), (''token'', JStr jwt), (''user'', sanitizeUser user)]"
    and j: "generateJwt env user = Inr jwt"
    by (auto simp: register_def successful_def messageBody_def
        split: if_splits option.splits prod.splits sum.splits)
  from j obtain u where "user = Some u" by (cases user) (auto simp: generateJwt_def)
  with b show ?thesis
    using sanitized_no_hash [of u] by (simp add: userObjectOk_def sanitizeUser_Some getProp_def)
qed

lemma login_ok:
  assumes "login env db email password = (st, body)" and "successful st"
  shows "userObjectOk body"
proof -
  from assms obtain u jwt where
    b: "body = JObj [(''token'', JStr jwt), (''user'', sanitizeUser (Some u))]"
    by (auto simp: login_def successful_def messageBody_def
        split: if_splits option.splits sum.splits)
  then show ?thesis
    using sanitized_no_hash [of u] by (simp add: userObjectOk_def sanitizeUser_Some getProp_def)
qed

lemma me_ok:
  assumes "me db userId = (st, body)" and "successful st"
  shows "userObjectOk body"
proof -
  from assms obtain u where b: "body = JObj [(''user'', sanitizeUser (Some u))]"
    by (auto simp: me_def successful_def messageBody_def split: option.splits)
  then show ?thesis
    using sanitized_no_hash [of u] by (simp add: userObjectOk_def sanitizeUser_Some getProp_def)
qed

text \<open>
  Claim C10.  Every successful response (a 2xx status) of register, login and me has a
  body whose user field is an object with no password_hash property, and the body has no
  such property either: sanitizeUser removes it from whatever row the table returned,
  for every choice of the bcrypt and jsonwebtoken functions.
\<close>

theorem auth_responses_omit_password_hash:
  "(register env db name email password = (db', st, body) \<and> successful st \<longrightarrow> userObjectOk body)
   \<and> (login env db email password = (st, body) \<and> successful st \<longrightarrow> userObjectOk body)
   \<and> (me db userId = (st, body) \<and> successful st \<longrightarrow> userObjectOk body)
   \<and> (\<forall>u. ''password_hash'' \<notin> set (keysOf (sanitizeUser u)))"
proof -
  have "''password_hash'' \<notin> set (keysOf (sanitizeUser u))" for u
    using sanitized_no_hash by (cases u) (simp_all add: sanitizeUser_def)
  then show ?thesis using register_ok login_ok me_ok by blast
qed

theorem auth_responses_omit_password_hash_witness:
  "login sampleEnv sampleUsers (Some ''ann@example.com'') (Some ''secret'') =
     (200, JObj [(''token'', JStr ''header.payload.signature''),
                 (''user'', JObj [(''id'', JNum 1), (''name'', JStr ''Ann''),
                                  (''email'', JStr ''ann@example.com''), (''is_verified'', JNum 1)])])
   \<and> userObjectOk (snd (login sampleEnv sampleUsers (Some ''ann@example.com'') (Some ''secret'')))
   \<and> fst (snd (register sampleEnv sampleUsers (Some ''Bob'') (Some ''bob@example.com'') (Some ''pw''))) = 201
   \<and> userObjectOk (snd (snd (register sampleEnv sampleUsers (Some ''Bob'') (Some ''bob@example.com'') (Some ''pw''))))
   \<and> fst (me sampleUsers 1) = 200
   \<and> userObjectOk (snd (me sampleUsers 1))"
proof -
  have l: "login sampleEnv sampleUsers (Some ''ann@example.com'') (Some ''secret'') =
     (200, JObj [(''token'', JStr ''header.payload.signature''),
                 (''user'', JObj [(''id'', JNum 1), (''name'', JStr ''Ann''),
                                  (''email'', JStr ''ann@example.com''), (''is_verified'', JNum 1)])])"
    by (simp add: login_def findUserByEmail_def sampleUsers_def getProp_def
        verifyPassword_def sampleEnv_def generateJwt_def sanitizeUser_def)
  obtain db' body where r: "register sampleEnv sampleUsers (Some ''Bob'') (Some ''bob@example.com'') (Some ''pw'')
      = (db', 201, body)"
    by (simp add: register_def findUserByEmail_def sampleUsers_def getProp_def
        createUser_def findUserById_def sampleEnv_def generateJwt_def Let_def)
  obtain body' where m: "me sampleUsers 1 = (200, body')"
    by (simp add: me_def findUserById_def sampleUsers_def getProp_def)
  have s: "successful 200" "successful 201" by (simp_all add: successful_def)
  from auth_responses_omit_password_hash
         [of sampleEnv sampleUsers "Some ''ann@example.com''" "Some ''ann@example.com''" "Some ''secret''"
             db' 200 "snd (login sampleEnv sampleUsers (Some ''ann@example.com'') (Some ''secret''))" 1]
       auth_responses_omit_password_hash
         [of sampleEnv sampleUsers "Some ''Bob''" "Some ''bob@example.com''" "Some ''pw''" db' 201 body 1]
       auth_responses_omit_password_hash
         [of sampleEnv sampleUsers "Some ''Bob''" "Some ''bob@example.com''" "Some ''pw''" db' 200 body' 1]
       l r m s
  show ?thesis by simp
qed

section \<open>Verified properties: the summarization adapter\<close>




















section \<open>Verified properties: the dashboard's AI analysis\<close>















lemma generateAIAnalysis_unfold:
  assumes "sr_success result" and "truthy (sr_summary result)"
    and "generateSummary env jparse provider (buildAnalysisPrompt render data) None = result"
  shows "generateAIAnalysis env jparse provider render data =
     (case analysisOf jparse result of Inl e \<Rightarrow> generateFallbackAnalysis data | Inr a \<Rightarrow> a)"
  using assms
  by (simp add: generateAIAnalysis_def generateAIAnalysisTry_def Let_def)












lemma mock_summary_parsed:
  "sampleParse mockSummary = Some (JObj [(''summary'', JStr ''Mock summary: consistent progress and steady mood.''),
                         (''sentiment'', JStr ''neutral'')])"
  by (simp add: sampleParse_def mockSummary_def)

text \<open>
  Claim C8.  When DEEPSEEK_MOCK is 'true', generateSummary returns the canned result for
  every text, every option and every state of the client and the provider: its summary is
  the fixed mock text (as the JSON string the source builds), its sentiment is neutral,
  its provider is mock, and any two calls return equal results.  The dashboard analysis
  that is built from it is then one fixed analysis, with the mock summary and the provider
  mock, for every request (JSON.parse reading the mock text as the object it denotes).
\<close>

theorem mock_is_deterministic:
  assumes "DEEPSEEK_MOCK env = Some ''true''" and "DEEPSEEK_MOCK env' = Some ''true''"
  shows "generateSummary env jparse provider t retries = mockResult
     \<and> generateSummary env jparse provider t retries = generateSummary env' jparse' provider' t' retries'
     \<and> sr_summary mockResult = JStr mockSummary
     \<and> sr_sentiment mockResult = ''neutral''
     \<and> sr_provider mockResult = ''mock''
     \<and> (jparse mockSummary =
           Some (JObj [(''summary'', JStr ''Mock summary: consistent progress and steady mood.''),
                       (''sentiment'', JStr ''neutral'')])
         \<longrightarrow> generateAIAnalysis env jparse provider render data =
             \<lparr>a_summary = JStr ''Mock summary: consistent progress and steady mood.'',
              a_suggestions = defaultSuggestions, a_provider = ''mock''\<rparr>)"
proof -
  have g: "generateSummary env jparse provider x r = mockResult" for x r
    using assms(1) by (simp add: generateSummary_def)
  have g': "generateSummary env' jparse' provider' t' retries' = mockResult"
    using assms(2) by (simp add: generateSummary_def)
  have d: "generateAIAnalysis env jparse provider render data =
             \<lparr>a_summary = JStr ''Mock summary: consistent progress and steady mood.'',
              a_suggestions = defaultSuggestions, a_provider = ''mock''\<rparr>"
    if p: "jparse mockSummary =
           Some (JObj [(''summary'', JStr ''Mock summary: consistent progress and steady mood.''),
                       (''sentiment'', JStr ''neutral'')])"
  proof -
    have a: "aiPayloadOf jparse mockResult =
       JObj [(''summary'', JStr ''Mock summary: consistent progress and steady mood.''),
             (''sentiment'', JStr ''neutral'')]"
      using p by (simp add: aiPayloadOf_def mockResult_def)
    have "parseAIAnalysis jparse (JObj [(''summary'', JStr ''Mock summary: consistent progress and steady mood.''),
             (''sentiment'', JStr ''neutral'')])
        = Inr (JStr ''Mock summary: consistent progress and steady mood.'', defaultSuggestions)"
      by (simp add: parseAIAnalysis_def parseAIAnalysisTry_def parsedOf_def getProp_def)
    with a have "analysisOf jparse mockResult =
       Inr \<lparr>a_summary = JStr ''Mock summary: consistent progress and steady mood.'',
              a_suggestions = defaultSuggestions, a_provider = ''mock''\<rparr>"
      by (simp add: analysisOf_def mockResult_def)
    moreover have "sr_success mockResult" "truthy (sr_summary mockResult)"
      by (simp_all add: mockResult_def mockSummary_def)
    ultimately show ?thesis
      using generateAIAnalysis_unfold [OF _ _ g, of render data] by simp
  qed
  from g g' d show ?thesis by (simp add: mockResult_def)
qed

theorem mock_is_deterministic_witness:
  "generateSummary mockEnv sampleParse timingOut ''I feel great'' None
     = generateSummary mockEnv sampleParse answeringProse ''A terrible day'' (Some 3)
   \<and> generateSummary mockEnv sampleParse timingOut ''I feel great'' None = mockResult
   \<and> generateAIAnalysis mockEnv sampleParse timingOut sampleRender sampleData
       = \<lparr>a_summary = JStr ''Mock summary: consistent progress and steady mood.'',
          a_suggestions = defaultSuggestions, a_provider = ''mock''\<rparr>"
proof -
  have m: "DEEPSEEK_MOCK mockEnv = Some ''true''" by (simp add: mockEnv_def)
  from mock_is_deterministic [OF m m, of sampleParse timingOut "''I feel great''" None
         sampleParse answeringProse "''A terrible day''" "Some 3" sampleRender sampleData]
       mock_summary_parsed
  show ?thesis by metis
qed

end
